theory Spec2Isabelle
  imports Complex_Main "HOL-Library.Word"
begin

section \<open>Numbers\<close>

text \<open>
  The functions of the gamification and progress calculators take and return the
  TypeScript type \<open>number\<close>. Experience points are counts (the sum of the integer
  \<open>xp\<close> fields of badges), so they are modelled as mathematical integers \<open>int\<close>,
  negative values included. A quotient of two such numbers is the exact rational, and
  \<open>Math.round\<close> and \<open>Math.floor\<close> are the functions of ECMAScript on it:
  \<open>Math.round\<close> returns the integer nearest to its argument and, of two integers
  equally near, the one towards plus infinity. The values \<open>NaN\<close> and the infinities,
  and the rounding error of binary floating point, are outside this model.
\<close>

definition Math_round :: "rat \<Rightarrow> int" where
  "Math_round q = \<lfloor>q + 1 / 2\<rfloor>"


text \<open>
  The wording of the specification for rounding, as a relation between a rational and
  the integer it is rounded to: the nearest integer, a half rounded up.
\<close>

definition rounds_half_up_to :: "rat \<Rightarrow> int \<Rightarrow> bool" where
  "rounds_half_up_to q n \<longleftrightarrow> of_int n - 1 / 2 \<le> q \<and> q < of_int n + 1 / 2"

section \<open>Gamification calculator\<close>

text \<open>
  \<^verbatim>\<open>const XP_PER_LEVEL = [0, 100, 250, 500, 1000];\<close>
\<close>

definition XP_PER_LEVEL :: "int list" where
  "XP_PER_LEVEL = [0, 100, 250, 500, 1000]"

text \<open>
  \<^verbatim>\<open>
  for (let i = XP_PER_LEVEL.length - 1; i >= 0; i--) {
    if (totalXP >= XP_PER_LEVEL[i]) { return i + 1; }
  }
  return 1;
  \<close>
  The loop counts \<open>i\<close> down from the last index. The argument \<open>Suc i\<close> of
  \<open>calculateUserLevel_loop\<close> stands for the loop variable having the value \<open>i\<close>,
  and \<open>0\<close> for the loop having run out (\<open>i = -1\<close>), where the function falls through
  to \<open>return 1\<close>.
\<close>

fun calculateUserLevel_loop :: "int \<Rightarrow> nat \<Rightarrow> nat" where
  "calculateUserLevel_loop totalXP 0 = 1"
| "calculateUserLevel_loop totalXP (Suc i) =
     (if totalXP \<ge> XP_PER_LEVEL ! i then i + 1
      else calculateUserLevel_loop totalXP i)"

definition calculateUserLevel :: "int \<Rightarrow> nat" where
  "calculateUserLevel totalXP = calculateUserLevel_loop totalXP (length XP_PER_LEVEL)"

text \<open>
  \<^verbatim>\<open>
  const currentLevel = calculateUserLevel(totalXP);
  if (currentLevel >= 5) { return 0; }
  const nextLevelXP = XP_PER_LEVEL[currentLevel];
  return nextLevelXP - totalXP;
  \<close>
\<close>

definition xpToNextLevel :: "int \<Rightarrow> int" where
  "xpToNextLevel totalXP =
     (let currentLevel = calculateUserLevel totalXP in
      if currentLevel \<ge> 5 then 0
      else let nextLevelXP = XP_PER_LEVEL ! currentLevel in
           nextLevelXP - totalXP)"

text \<open>
  \<^verbatim>\<open>
  const currentLevel = calculateUserLevel(totalXP);
  if (currentLevel >= 5) { return 100; }
  const currentLevelXP = XP_PER_LEVEL[currentLevel - 1];
  const nextLevelXP = XP_PER_LEVEL[currentLevel];
  const xpInCurrentLevel = totalXP - currentLevelXP;
  const xpNeededForLevel = nextLevelXP - currentLevelXP;
  return Math.round((xpInCurrentLevel / xpNeededForLevel) * 100);
  \<close>
\<close>

definition levelProgressPercentage :: "int \<Rightarrow> int" where
  "levelProgressPercentage totalXP =
     (let currentLevel = calculateUserLevel totalXP in
      if currentLevel \<ge> 5 then 100
      else let currentLevelXP = XP_PER_LEVEL ! (currentLevel - 1);
               nextLevelXP = XP_PER_LEVEL ! currentLevel;
               xpInCurrentLevel = totalXP - currentLevelXP;
               xpNeededForLevel = nextLevelXP - currentLevelXP
           in Math_round ((of_int xpInCurrentLevel / of_int xpNeededForLevel) * 100))"

section \<open>Project progress calculator\<close>

datatype ProjectPhase = engage | investigate | act

record ProjectProgress =
  phase :: ProjectPhase
  engageComplete :: bool
  investigateComplete :: bool
  actComplete :: bool

text \<open>
  \<^verbatim>\<open>
  let completedPhases = 0;
  if (project.engageComplete) completedPhases++;
  if (project.investigateComplete) completedPhases++;
  if (project.actComplete) completedPhases++;
  return Math.round((completedPhases / 3) * 100);
  \<close>
\<close>

definition calculateProjectProgress :: "ProjectProgress \<Rightarrow> int" where
  "calculateProjectProgress project =
     (let completedPhases = (0::nat);
          completedPhases = (if engageComplete project then completedPhases + 1 else completedPhases);
          completedPhases = (if investigateComplete project then completedPhases + 1 else completedPhases);
          completedPhases = (if actComplete project then completedPhases + 1 else completedPhases)
      in Math_round ((of_nat completedPhases / 3) * 100))"

definition countCompletedPhases :: "ProjectProgress \<Rightarrow> nat" where
  "countCompletedPhases project =
     (let count = (0::nat);
          count = (if engageComplete project then count + 1 else count);
          count = (if investigateComplete project then count + 1 else count);
          count = (if actComplete project then count + 1 else count)
      in count)"

section \<open>Strings and values that may be null\<close>

text \<open>
  A JavaScript string is a sequence of 16-bit code units, and \<open>length\<close> counts them.
  \<open>ascii\<close> writes a string of ASCII characters as such a sequence.
\<close>

type_synonym js_string = "16 word list"

definition ascii :: "string \<Rightarrow> js_string" where
  "ascii s = map of_char s"

text \<open>
  \<open>String.prototype.trim\<close> removes white space and line terminators from both ends:
  tab, line feed, vertical tab, form feed, carriage return, space, no-break space, the
  Unicode space separators, the line and paragraph separators and the byte order mark.
\<close>

definition is_white_space :: "16 word \<Rightarrow> bool" where
  "is_white_space c \<longleftrightarrow>
     c = 0x9 \<or> c = 0xA \<or> c = 0xB \<or> c = 0xC \<or> c = 0xD \<or> c = 0x20 \<or> c = 0xA0
     \<or> c = 0x1680 \<or> (0x2000 \<le> c \<and> c \<le> 0x200A) \<or> c = 0x2028 \<or> c = 0x2029
     \<or> c = 0x202F \<or> c = 0x205F \<or> c = 0x3000 \<or> c = 0xFEFF"

definition trim :: "js_string \<Rightarrow> js_string" where
  "trim s = rev (dropWhile is_white_space (rev (dropWhile is_white_space s)))"

text \<open>\<open>s.includes(t)\<close>: the string \<open>t\<close> occurs in \<open>s\<close> at some position.\<close>

fun string_includes :: "js_string \<Rightarrow> js_string \<Rightarrow> bool" where
  "string_includes [] t = (t = [])"
| "string_includes (c # s) t = (take (length t) (c # s) = t \<or> string_includes s t)"

text \<open>
  A value of a type \<open>T | null | undefined\<close>, which is also what an optional property
  of an object holds and what a parameter holds at run time whatever its declared type.
\<close>

datatype 'a nullable = Null | Undefined | Val 'a

text \<open>
  Truthiness, as \<open>!v\<close> tests it: \<open>null\<close>, \<open>undefined\<close> and the empty string are
  falsy. Every literal of the unions \<open>ResourceType\<close>, \<open>Credibility\<close> and
  \<open>ActivityStatus\<close> is a non-empty string, so a property of such a type is truthy
  exactly when it is there.
\<close>

fun truthy_string :: "js_string nullable \<Rightarrow> bool" where
  "truthy_string Null = False"
| "truthy_string Undefined = False"
| "truthy_string (Val s) = (s \<noteq> [])"

fun truthy_literal :: "'a nullable \<Rightarrow> bool" where
  "truthy_literal Null = False"
| "truthy_literal Undefined = False"
| "truthy_literal (Val v) = True"

text \<open>\<open>nullish v\<close>: the value is \<open>null\<close> or \<open>undefined\<close>.\<close>

fun nullish :: "'a nullable \<Rightarrow> bool" where
  "nullish Null = True"
| "nullish Undefined = True"
| "nullish (Val v) = False"

text \<open>
  Reading a property of \<open>null\<close> or \<open>undefined\<close>, or calling a method on it, throws a
  \<open>TypeError\<close>. A function that may throw returns \<open>error + 'a\<close>, with \<open>Inl\<close> for
  the exception.
\<close>

datatype error = TypeError

fun property :: "('r \<Rightarrow> 'a) \<Rightarrow> 'r nullable \<Rightarrow> error + 'a" where
  "property f Null = Inl TypeError"
| "property f Undefined = Inl TypeError"
| "property f (Val r) = Inr (f r)"

fun trim_method :: "js_string nullable \<Rightarrow> error + js_string" where
  "trim_method Null = Inl TypeError"
| "trim_method Undefined = Inl TypeError"
| "trim_method (Val s) = Inr (trim s)"

text \<open>The argument of \<open>new URL\<close> is converted to a string first.\<close>

fun ToString :: "js_string nullable \<Rightarrow> js_string" where
  "ToString Null = ascii ''null''"
| "ToString Undefined = ascii ''undefined''"
| "ToString (Val s) = s"

text \<open>
  Sequencing: \<open>and_then\<close> evaluates an expression and passes its value on, unless it
  threw; \<open>short_or a b\<close> is \<open>a || b\<close>, which evaluates \<open>b\<close> only when \<open>a\<close> is false;
  \<open>return_false_if c rest\<close> is the statement \<open>if (c) return false;\<close> followed by
  \<open>rest\<close>.
\<close>

fun and_then :: "error + 'a \<Rightarrow> ('a \<Rightarrow> error + 'b) \<Rightarrow> error + 'b" where
  "and_then (Inl e) f = Inl e"
| "and_then (Inr v) f = f v"

definition short_or :: "error + bool \<Rightarrow> error + bool \<Rightarrow> error + bool" where
  "short_or a b = and_then a (\<lambda>x. if x then Inr True else b)"

definition return_false_if :: "error + bool \<Rightarrow> error + bool \<Rightarrow> error + bool" where
  "return_false_if c rest = and_then c (\<lambda>x. if x then Inr False else rest)"

section \<open>Field validators\<close>

text \<open>
  \<^verbatim>\<open>
  if (!bigIdea) return false;
  return bigIdea.trim().length >= 10;
  \<close>
\<close>

definition isValidBigIdea :: "js_string nullable \<Rightarrow> error + bool" where
  "isValidBigIdea bigIdea =
     return_false_if (Inr (\<not> truthy_string bigIdea))
       (and_then (trim_method bigIdea) (\<lambda>t. Inr (length t \<ge> 10)))"

text \<open>
  \<^verbatim>\<open>
  if (!question) return false;
  const trimmed = question.trim();
  return trimmed.length >= 10 && trimmed.includes('?');
  \<close>
\<close>

definition isValidEssentialQuestion :: "js_string nullable \<Rightarrow> error + bool" where
  "isValidEssentialQuestion question =
     return_false_if (Inr (\<not> truthy_string question))
       (and_then (trim_method question)
          (\<lambda>trimmed. Inr (length trimmed \<ge> 10 \<and> string_includes trimmed (ascii ''?''))))"

text \<open>
  \<^verbatim>\<open>
  if (!challenge) return false;
  return challenge.trim().length >= 15;
  \<close>
\<close>

definition isValidChallenge :: "js_string nullable \<Rightarrow> error + bool" where
  "isValidChallenge challenge =
     return_false_if (Inr (\<not> truthy_string challenge))
       (and_then (trim_method challenge) (\<lambda>t. Inr (length t \<ge> 15)))"

text \<open>
  \<^verbatim>\<open>
  if (!url || url.trim().length === 0) return false;
  try { new URL(url); return true; } catch { return false; }
  \<close>
  The constructor \<open>URL\<close> belongs to the platform, not to this program: it is the
  parameter \<open>new_URL\<close>, which returns the parsed URL or throws. What it throws is
  caught.
\<close>

definition isValidURL :: "(js_string \<Rightarrow> error + 'u) \<Rightarrow> js_string nullable \<Rightarrow> error + bool" where
  "isValidURL new_URL url =
     return_false_if
       (short_or (Inr (\<not> truthy_string url))
          (and_then (trim_method url) (\<lambda>t. Inr (length t = 0))))
       (case new_URL (ToString url) of
          Inr u \<Rightarrow> Inr True
        | Inl e \<Rightarrow> Inr False)"

datatype ResourceType = article | video | book | website | other

datatype Credibility = high | medium | low

datatype ActivityStatus = not_started | in_progress | completed

text \<open>
  \<open>Partial<Resource>\<close> and \<open>Partial<Activity>\<close>: every property is optional. The
  two interfaces both have a \<open>title\<close>, so the fields carry the name of their
  interface.
\<close>

record Resource =
  resource_title :: "js_string nullable"
  resource_url :: "js_string nullable"
  resource_type :: "ResourceType nullable"
  resource_credibility :: "Credibility nullable"

record Activity =
  activity_title :: "js_string nullable"
  activity_description :: "js_string nullable"
  activity_status :: "ActivityStatus nullable"

text \<open>
  \<^verbatim>\<open>
  if (!resource.title || resource.title.trim().length < 3) return false;
  if (!resource.url || !isValidURL(resource.url)) return false;
  if (!resource.type) return false;
  if (!resource.credibility) return false;
  return true;
  \<close>
\<close>

definition isValidResource :: "(js_string \<Rightarrow> error + 'u) \<Rightarrow> Resource nullable \<Rightarrow> error + bool" where
  "isValidResource new_URL resource =
     return_false_if
       (short_or
          (and_then (property resource_title resource) (\<lambda>v. Inr (\<not> truthy_string v)))
          (and_then (property resource_title resource)
             (\<lambda>v. and_then (trim_method v) (\<lambda>t. Inr (length t < 3)))))
    (return_false_if
       (short_or
          (and_then (property resource_url resource) (\<lambda>v. Inr (\<not> truthy_string v)))
          (and_then (property resource_url resource)
             (\<lambda>v. and_then (isValidURL new_URL v) (\<lambda>ok. Inr (\<not> ok)))))
    (return_false_if
       (and_then (property resource_type resource) (\<lambda>v. Inr (\<not> truthy_literal v)))
    (return_false_if
       (and_then (property resource_credibility resource) (\<lambda>v. Inr (\<not> truthy_literal v)))
    (Inr True))))"

text \<open>
  \<^verbatim>\<open>
  if (!activity.title || activity.title.trim().length < 3) return false;
  if (!activity.description || activity.description.trim().length < 10) return false;
  if (!activity.status) return false;
  return true;
  \<close>
\<close>

definition isValidActivity :: "Activity nullable \<Rightarrow> error + bool" where
  "isValidActivity activity =
     return_false_if
       (short_or
          (and_then (property activity_title activity) (\<lambda>v. Inr (\<not> truthy_string v)))
          (and_then (property activity_title activity)
             (\<lambda>v. and_then (trim_method v) (\<lambda>t. Inr (length t < 3)))))
    (return_false_if
       (short_or
          (and_then (property activity_description activity) (\<lambda>v. Inr (\<not> truthy_string v)))
          (and_then (property activity_description activity)
             (\<lambda>v. and_then (trim_method v) (\<lambda>t. Inr (length t < 10)))))
    (return_false_if
       (and_then (property activity_status activity) (\<lambda>v. Inr (\<not> truthy_literal v)))
    (Inr True)))"

section \<open>Nudge lookup\<close>





section \<open>Properties of the gamification calculator\<close>

lemma calculateUserLevel_cases:
  "calculateUserLevel x =
     (if 1000 \<le> x then 5 else if 500 \<le> x then 4 else if 250 \<le> x then 3
      else if 100 \<le> x then 2 else 1)"
  by (simp add: calculateUserLevel_def XP_PER_LEVEL_def eval_nat_numeral)

lemma XP_nth:
  "XP_PER_LEVEL ! 0 = 0" "XP_PER_LEVEL ! 1 = 100" "XP_PER_LEVEL ! 2 = 250"
  "XP_PER_LEVEL ! 3 = 500" "XP_PER_LEVEL ! 4 = 1000" "XP_PER_LEVEL ! Suc 0 = 100"
  by (simp_all add: XP_PER_LEVEL_def)


lemma Math_round_percent:
  assumes "0 < d"
  shows "Math_round ((of_int a / of_int d) * 100) = (200 * a + d) div (2 * d)"
proof -
  have "(of_int a / of_int d) * 100 + 1 / 2 = (of_int (200 * a + d) :: rat) / of_int (2 * d)"
    using assms by (simp add: field_simps)
  then show ?thesis
    unfolding Math_round_def by (simp only: floor_divide_of_int_eq)
qed

lemma levelProgressPercentage_level1:
  assumes "x < 100"
  shows "levelProgressPercentage x = (200 * x + 100) div 200"
proof -
  have L: "calculateUserLevel x = 1"
    using assms by (simp add: calculateUserLevel_cases)
  have "levelProgressPercentage x = Math_round ((of_int (x - 0) / of_int 100) * 100)"
    by (simp add: levelProgressPercentage_def L XP_nth)
  also have "\<dots> = (200 * (x - 0) + 100) div (2 * 100)"
    by (rule Math_round_percent) simp
  finally show ?thesis by simp
qed

lemma levelProgressPercentage_level2:
  assumes "100 \<le> x" "x < 250"
  shows "levelProgressPercentage x = (200 * (x - 100) + 150) div 300"
proof -
  have L: "calculateUserLevel x = 2"
    using assms by (simp add: calculateUserLevel_cases)
  have "levelProgressPercentage x = Math_round ((of_int (x - 100) / of_int 150) * 100)"
    by (simp add: levelProgressPercentage_def L XP_nth)
  also have "\<dots> = (200 * (x - 100) + 150) div (2 * 150)"
    by (rule Math_round_percent) simp
  finally show ?thesis by simp
qed

lemma levelProgressPercentage_level3:
  assumes "250 \<le> x" "x < 500"
  shows "levelProgressPercentage x = (200 * (x - 250) + 250) div 500"
proof -
  have L: "calculateUserLevel x = 3"
    using assms by (simp add: calculateUserLevel_cases)
  have "levelProgressPercentage x = Math_round ((of_int (x - 250) / of_int 250) * 100)"
    by (simp add: levelProgressPercentage_def L XP_nth)
  also have "\<dots> = (200 * (x - 250) + 250) div (2 * 250)"
    by (rule Math_round_percent) simp
  finally show ?thesis by simp
qed

lemma levelProgressPercentage_level4:
  assumes "500 \<le> x" "x < 1000"
  shows "levelProgressPercentage x = (200 * (x - 500) + 500) div 1000"
proof -
  have L: "calculateUserLevel x = 4"
    using assms by (simp add: calculateUserLevel_cases)
  have "levelProgressPercentage x = Math_round ((of_int (x - 500) / of_int 500) * 100)"
    by (simp add: levelProgressPercentage_def L XP_nth)
  also have "\<dots> = (200 * (x - 500) + 500) div (2 * 500)"
    by (rule Math_round_percent) simp
  finally show ?thesis by simp
qed

lemma levelProgressPercentage_level5:
  assumes "1000 \<le> x"
  shows "levelProgressPercentage x = 100"
  using assms by (simp add: levelProgressPercentage_def calculateUserLevel_cases)

lemma level_index_cases:
  assumes "1 \<le> i" "i \<le> (5::nat)"
  obtains "i = 1" | "i = 2" | "i = 3" | "i = 4" | "i = 5"
  using assms by arith

text \<open>
  Every read of \<open>XP_PER_LEVEL\<close> is at one of its five indices: the loop reads below
  its length, and the two calculators read at \<open>currentLevel - 1\<close> and
  \<open>currentLevel\<close> only where the level is below 5.
\<close>

lemma XP_PER_LEVEL_reads_in_range:
  "\<not> 5 \<le> calculateUserLevel x \<Longrightarrow>
     calculateUserLevel x - 1 < length XP_PER_LEVEL \<and> calculateUserLevel x < length XP_PER_LEVEL"
  by (simp add: XP_PER_LEVEL_def)


lemma Math_round_rounds_half_up: "rounds_half_up_to q (Math_round q)"
  unfolding rounds_half_up_to_def Math_round_def by linarith

text \<open>
  Claim C1. For every experience total, \<open>calculateUserLevel\<close> returns a level
  between 1 and 5; it returns 1 for a total that is negative or zero; and for a total
  that reaches some threshold the level returned is the highest 1-based index \<open>i\<close>
  with \<open>totalXP \<ge> XP_PER_LEVEL[i-1]\<close>: its own threshold is reached, and no index
  whose threshold is reached lies above it.
\<close>

theorem calculateUserLevel_highest:
  "1 \<le> calculateUserLevel totalXP \<and> calculateUserLevel totalXP \<le> 5
   \<and> (totalXP \<le> 0 \<longrightarrow> calculateUserLevel totalXP = 1)
   \<and> (0 \<le> totalXP \<longrightarrow> XP_PER_LEVEL ! (calculateUserLevel totalXP - 1) \<le> totalXP)
   \<and> (\<forall>i. 1 \<le> i \<and> i \<le> 5 \<and> XP_PER_LEVEL ! (i - 1) \<le> totalXP
          \<longrightarrow> i \<le> calculateUserLevel totalXP)"
proof (intro conjI allI impI)
  show "1 \<le> calculateUserLevel totalXP" by (simp add: calculateUserLevel_cases)
  show "calculateUserLevel totalXP \<le> 5" by (simp add: calculateUserLevel_cases)
  show "calculateUserLevel totalXP = 1" if "totalXP \<le> 0"
    using that by (simp add: calculateUserLevel_cases)
  show "XP_PER_LEVEL ! (calculateUserLevel totalXP - 1) \<le> totalXP" if "0 \<le> totalXP"
    using that by (simp add: calculateUserLevel_cases XP_nth)
  fix i :: nat
  assume h: "1 \<le> i \<and> i \<le> 5 \<and> XP_PER_LEVEL ! (i - 1) \<le> totalXP"
  then have "1 \<le> i" "i \<le> 5" by simp_all
  then show "i \<le> calculateUserLevel totalXP"
  proof (cases rule: level_index_cases)
    case 1 then show ?thesis by (simp add: calculateUserLevel_cases)
  next
    case 2 with h show ?thesis by (simp add: calculateUserLevel_cases XP_nth)
  next
    case 3 with h show ?thesis by (simp add: calculateUserLevel_cases XP_nth)
  next
    case 4 with h show ?thesis by (simp add: calculateUserLevel_cases XP_nth)
  next
    case 5 with h show ?thesis by (simp add: calculateUserLevel_cases XP_nth)
  qed
qed

theorem calculateUserLevel_highest_witness:
  "calculateUserLevel 260 = 3 \<and> XP_PER_LEVEL ! 2 \<le> 260 \<and> calculateUserLevel (-7) = 1
   \<and> \<not> XP_PER_LEVEL ! 3 \<le> 260"
  using calculateUserLevel_highest [of 260] calculateUserLevel_highest [of "-7"]
  by (simp add: calculateUserLevel_cases XP_nth)

text \<open>
  Claim C6. \<open>calculateUserLevel\<close> is monotonic: a larger experience total never
  gives a lower level.
\<close>

theorem calculateUserLevel_mono:
  "x \<le> y \<Longrightarrow> calculateUserLevel x \<le> calculateUserLevel y"
  by (simp add: calculateUserLevel_cases)

theorem calculateUserLevel_mono_witness:
  "(99::int) \<le> 100 \<and> calculateUserLevel 99 \<le> calculateUserLevel 100
   \<and> calculateUserLevel 99 = 1 \<and> calculateUserLevel 100 = 2"
proof -
  have h: "(99::int) \<le> 100" by simp
  show ?thesis
    using h calculateUserLevel_mono [OF h] by (simp add: calculateUserLevel_cases)
qed


lemma levelProgressPercentage_cases:
  "levelProgressPercentage x =
     (if 1000 \<le> x then 100
      else if 500 \<le> x then (200 * (x - 500) + 500) div 1000
      else if 250 \<le> x then (200 * (x - 250) + 250) div 500
      else if 100 \<le> x then (200 * (x - 100) + 150) div 300
      else (200 * x + 100) div 200)"
  by (simp add: levelProgressPercentage_level1 levelProgressPercentage_level2
      levelProgressPercentage_level3 levelProgressPercentage_level4 levelProgressPercentage_level5)






text \<open>
  Claim C9. Below the maximum level (level 4 or less) \<open>xpToNextLevel\<close> is strictly
  positive, for negative totals too.
\<close>

theorem xpToNextLevel_positive:
  "calculateUserLevel totalXP \<le> 4 \<Longrightarrow> 0 < xpToNextLevel totalXP"
  by (simp add: xpToNextLevel_def calculateUserLevel_cases XP_nth split: if_splits)

theorem xpToNextLevel_positive_witness:
  "calculateUserLevel (-30) \<le> 4 \<and> 0 < xpToNextLevel (-30) \<and> xpToNextLevel (-30) = 130"
proof -
  have h: "calculateUserLevel (-30) \<le> 4" by (simp add: calculateUserLevel_cases)
  show ?thesis
    using h xpToNextLevel_positive [OF h]
    by (simp add: xpToNextLevel_def calculateUserLevel_cases XP_nth)
qed

text \<open>
  Claim C10 says that for a total of at least 0 the percentage lies between 0 and 100
  and is 100 only at level 5. The second part fails: with 499 points the level is 3,
  and 249 of 250 points is 99.6 percent, which rounds to 100.
\<close>

theorem levelProgressPercentage_100_below_max:
  "(0::int) \<le> 499 \<and> levelProgressPercentage 499 = 100 \<and> calculateUserLevel 499 \<noteq> 5"
  by (simp add: levelProgressPercentage_cases calculateUserLevel_cases)

text \<open>
  Claim C10, amended. For a total of at least 0 the percentage lies between 0 and 100.
  It is 100 exactly at level 5 and at the totals whose percentage rounds up to 100,
  which are 499 (level 3), 998 and 999 (level 4).
\<close>

theorem levelProgressPercentage_bounds:
  "0 \<le> totalXP \<Longrightarrow>
     0 \<le> levelProgressPercentage totalXP \<and> levelProgressPercentage totalXP \<le> 100
     \<and> (levelProgressPercentage totalXP = 100 \<longleftrightarrow>
          calculateUserLevel totalXP = 5 \<or> totalXP = 499 \<or> totalXP = 998 \<or> totalXP = 999)"
  unfolding levelProgressPercentage_cases calculateUserLevel_cases by (auto; presburger)

theorem levelProgressPercentage_bounds_witness:
  "(0::int) \<le> 998 \<and> levelProgressPercentage 998 = 100 \<and> calculateUserLevel 998 = 4
   \<and> levelProgressPercentage 997 = 99"
proof -
  have h: "(0::int) \<le> 998" by simp
  show ?thesis
    using h levelProgressPercentage_bounds [OF h]
    by (simp add: levelProgressPercentage_cases calculateUserLevel_cases)
qed

section \<open>Properties of the project progress calculator\<close>


lemma Math_round_thirds:
  "Math_round ((of_nat c / 3) * 100) = (200 * int c + 3) div 6"
proof -
  have "(of_nat c / 3) * 100 + 1 / 2 = (of_int (200 * int c + 3) :: rat) / of_int 6"
    by (simp add: field_simps)
  then show ?thesis
    unfolding Math_round_def by (simp only: floor_divide_of_int_eq)
qed

text \<open>
  Claim C7. \<open>countCompletedPhases\<close> is the number of flags that are true among
  \<open>engageComplete\<close>, \<open>investigateComplete\<close> and \<open>actComplete\<close>, and
  \<open>calculateProjectProgress\<close> returns that count divided by 3, times 100, rounded
  to the nearest integer: 0 for no flag, 33 for one, 67 for two and 100 for three.
\<close>

theorem calculateProjectProgress_spec:
  "countCompletedPhases p
     = length (filter (\<lambda>flag. flag) [engageComplete p, investigateComplete p, actComplete p])
   \<and> calculateProjectProgress p = Math_round ((of_nat (countCompletedPhases p) / 3) * 100)
   \<and> rounds_half_up_to ((of_nat (countCompletedPhases p) / 3) * 100) (calculateProjectProgress p)
   \<and> (countCompletedPhases p = 0 \<longrightarrow> calculateProjectProgress p = 0)
   \<and> (countCompletedPhases p = 1 \<longrightarrow> calculateProjectProgress p = 33)
   \<and> (countCompletedPhases p = 2 \<longrightarrow> calculateProjectProgress p = 67)
   \<and> (countCompletedPhases p = 3 \<longrightarrow> calculateProjectProgress p = 100)"
proof -
  have count: "countCompletedPhases p
     = length (filter (\<lambda>flag. flag) [engageComplete p, investigateComplete p, actComplete p])"
    by (simp add: countCompletedPhases_def)
  have eq: "calculateProjectProgress p = Math_round ((of_nat (countCompletedPhases p) / 3) * 100)"
    by (simp add: calculateProjectProgress_def countCompletedPhases_def)
  have r: "rounds_half_up_to ((of_nat (countCompletedPhases p) / 3) * 100) (calculateProjectProgress p)"
    unfolding eq by (rule Math_round_rounds_half_up)
  have v: "(countCompletedPhases p = 0 \<longrightarrow> calculateProjectProgress p = 0)
   \<and> (countCompletedPhases p = 1 \<longrightarrow> calculateProjectProgress p = 33)
   \<and> (countCompletedPhases p = 2 \<longrightarrow> calculateProjectProgress p = 67)
   \<and> (countCompletedPhases p = 3 \<longrightarrow> calculateProjectProgress p = 100)"
    unfolding eq Math_round_thirds by simp
  from count eq r v show ?thesis by blast
qed

theorem calculateProjectProgress_spec_witness:
  "countCompletedPhases \<lparr>phase = act, engageComplete = True, investigateComplete = True, actComplete = False\<rparr> = 2
   \<and> calculateProjectProgress \<lparr>phase = act, engageComplete = True, investigateComplete = True, actComplete = False\<rparr> = 67
   \<and> countCompletedPhases \<lparr>phase = investigate, engageComplete = True, investigateComplete = False, actComplete = False\<rparr> = 1
   \<and> calculateProjectProgress \<lparr>phase = investigate, engageComplete = True, investigateComplete = False, actComplete = False\<rparr> = 33"
  using calculateProjectProgress_spec [of "\<lparr>phase = act, engageComplete = True, investigateComplete = True, actComplete = False\<rparr>"]
    calculateProjectProgress_spec [of "\<lparr>phase = investigate, engageComplete = True, investigateComplete = False, actComplete = False\<rparr>"]
  by (simp add: countCompletedPhases_def)

section \<open>Properties of the nudge lookup\<close>







section \<open>Properties of the field validators\<close>

lemma return_false_if_Inr [simp]:
  "return_false_if (Inr c) rest = (if c then Inr False else rest)"
  by (simp add: return_false_if_def)

lemma short_or_Inr [simp]:
  "short_or (Inr a) b = (if a then Inr True else b)"
  by (simp add: short_or_def)

lemma isValidBigIdea_value:
  "isValidBigIdea v = Inr (case v of Val s \<Rightarrow> s \<noteq> [] \<and> 10 \<le> length (trim s) | _ \<Rightarrow> False)"
  by (cases v) (simp_all add: isValidBigIdea_def)

lemma isValidEssentialQuestion_value:
  "isValidEssentialQuestion v =
     Inr (case v of Val s \<Rightarrow> s \<noteq> [] \<and> 10 \<le> length (trim s) \<and> string_includes (trim s) (ascii ''?'')
          | _ \<Rightarrow> False)"
  by (cases v) (simp_all add: isValidEssentialQuestion_def)

lemma isValidChallenge_value:
  "isValidChallenge v = Inr (case v of Val s \<Rightarrow> s \<noteq> [] \<and> 15 \<le> length (trim s) | _ \<Rightarrow> False)"
  by (cases v) (simp_all add: isValidChallenge_def)

lemma isValidURL_value:
  "isValidURL new_URL v =
     Inr (case v of Val s \<Rightarrow> s \<noteq> [] \<and> trim s \<noteq> [] \<and> (\<exists>u. new_URL s = Inr u) | _ \<Rightarrow> False)"
  by (cases v) (auto simp add: isValidURL_def split: sum.splits)

lemma title_check:
  "short_or (and_then (property f (Val r)) (\<lambda>v. Inr (\<not> truthy_string v)))
     (and_then (property f (Val r)) (\<lambda>v. and_then (trim_method v) (\<lambda>t. Inr (length t < n))))
   = Inr (case f r of Val s \<Rightarrow> s = [] \<or> length (trim s) < n | _ \<Rightarrow> True)"
  by (cases "f r") simp_all

lemma url_check:
  "short_or (and_then (property f (Val r)) (\<lambda>v. Inr (\<not> truthy_string v)))
     (and_then (property f (Val r)) (\<lambda>v. and_then (isValidURL new_URL v) (\<lambda>ok. Inr (\<not> ok))))
   = Inr (isValidURL new_URL (f r) \<noteq> Inr True)"
  by (cases "f r") (simp_all add: isValidURL_value)

lemma literal_check:
  "and_then (property f (Val r)) (\<lambda>v. Inr (\<not> truthy_literal v)) = Inr (\<not> truthy_literal (f r))"
  by simp

lemma isValidResource_value:
  "isValidResource new_URL (Val r) =
     Inr ((case resource_title r of Val s \<Rightarrow> s \<noteq> [] \<and> 3 \<le> length (trim s) | _ \<Rightarrow> False)
          \<and> isValidURL new_URL (resource_url r) = Inr True
          \<and> truthy_literal (resource_type r) \<and> truthy_literal (resource_credibility r))"
  unfolding isValidResource_def title_check url_check literal_check
  by (simp split: nullable.splits add: not_less)

lemma isValidActivity_value:
  "isValidActivity (Val a) =
     Inr ((case activity_title a of Val s \<Rightarrow> s \<noteq> [] \<and> 3 \<le> length (trim s) | _ \<Rightarrow> False)
          \<and> (case activity_description a of Val s \<Rightarrow> s \<noteq> [] \<and> 10 \<le> length (trim s) | _ \<Rightarrow> False)
          \<and> truthy_literal (activity_status a))"
  unfolding isValidActivity_def title_check literal_check
  by (simp split: nullable.splits add: not_less)

text \<open>
  Claim C2 says that each of the six validators returns false, and never throws, on
  \<open>null\<close> or \<open>undefined\<close>. \<open>isValidActivity\<close> reads \<open>activity.title\<close> first,
  which throws a \<open>TypeError\<close> when \<open>activity\<close> itself is \<open>null\<close> or
  \<open>undefined\<close>.
\<close>

theorem isValidActivity_null_raises:
  "isValidActivity Null = Inl TypeError \<and> isValidActivity Undefined = Inl TypeError"
  by (simp add: isValidActivity_def short_or_def return_false_if_def)

text \<open>\<open>isValidResource\<close> does the same, whatever the URL constructor does.\<close>

lemma isValidResource_null_raises:
  "isValidResource new_URL Null = Inl TypeError \<and> isValidResource new_URL Undefined = Inl TypeError"
  by (simp add: isValidResource_def short_or_def return_false_if_def)

text \<open>
  Claim C2, amended. \<open>isValidBigIdea\<close>, \<open>isValidEssentialQuestion\<close>,
  \<open>isValidChallenge\<close> and \<open>isValidURL\<close> return false on \<open>null\<close> and on
  \<open>undefined\<close>, without throwing. \<open>isValidResource\<close> and \<open>isValidActivity\<close>,
  whose parameter is an object with optional properties, never throw on an object, and
  return false when one of its required properties is \<open>null\<close> or \<open>undefined\<close>.
\<close>

theorem validators_null_or_undefined:
  "isValidBigIdea Null = Inr False \<and> isValidBigIdea Undefined = Inr False
   \<and> isValidEssentialQuestion Null = Inr False \<and> isValidEssentialQuestion Undefined = Inr False
   \<and> isValidChallenge Null = Inr False \<and> isValidChallenge Undefined = Inr False
   \<and> isValidURL new_URL Null = Inr False \<and> isValidURL new_URL Undefined = Inr False
   \<and> (\<exists>b. isValidResource new_URL (Val r) = Inr b)
   \<and> (\<exists>b. isValidActivity (Val a) = Inr b)
   \<and> (nullish (resource_title r) \<or> nullish (resource_url r) \<or> nullish (resource_type r)
        \<or> nullish (resource_credibility r) \<longrightarrow> isValidResource new_URL (Val r) = Inr False)
   \<and> (nullish (activity_title a) \<or> nullish (activity_description a) \<or> nullish (activity_status a)
        \<longrightarrow> isValidActivity (Val a) = Inr False)"
proof (intro conjI)
  show "isValidBigIdea Null = Inr False" "isValidBigIdea Undefined = Inr False"
    by (simp_all add: isValidBigIdea_value)
  show "isValidEssentialQuestion Null = Inr False" "isValidEssentialQuestion Undefined = Inr False"
    by (simp_all add: isValidEssentialQuestion_value)
  show "isValidChallenge Null = Inr False" "isValidChallenge Undefined = Inr False"
    by (simp_all add: isValidChallenge_value)
  show "isValidURL new_URL Null = Inr False" "isValidURL new_URL Undefined = Inr False"
    by (simp_all add: isValidURL_value)
  show "\<exists>b. isValidResource new_URL (Val r) = Inr b"
    by (simp add: isValidResource_value)
  show "\<exists>b. isValidActivity (Val a) = Inr b"
    by (simp add: isValidActivity_value)
  show "nullish (resource_title r) \<or> nullish (resource_url r) \<or> nullish (resource_type r)
        \<or> nullish (resource_credibility r) \<longrightarrow> isValidResource new_URL (Val r) = Inr False"
    by (auto simp add: isValidResource_value isValidURL_value elim!: nullish.elims)
  show "nullish (activity_title a) \<or> nullish (activity_description a) \<or> nullish (activity_status a)
        \<longrightarrow> isValidActivity (Val a) = Inr False"
    by (auto simp add: isValidActivity_value elim!: nullish.elims)
qed

theorem validators_null_or_undefined_witness:
  "nullish (resource_credibility
      \<lparr>resource_title = Val (ascii ''Titulo''), resource_url = Val (ascii ''https://example.com''),
       resource_type = Val article, resource_credibility = Undefined\<rparr>)
   \<and> isValidResource (\<lambda>s. Inr s) (Val
      \<lparr>resource_title = Val (ascii ''Titulo''), resource_url = Val (ascii ''https://example.com''),
       resource_type = Val article, resource_credibility = Undefined\<rparr>) = Inr False
   \<and> nullish (activity_description
      \<lparr>activity_title = Val (ascii ''Pesquisa de campo''), activity_description = Null,
       activity_status = Val not_started\<rparr>)
   \<and> isValidActivity (Val
      \<lparr>activity_title = Val (ascii ''Pesquisa de campo''), activity_description = Null,
       activity_status = Val not_started\<rparr>) = Inr False"
  using validators_null_or_undefined [of "\<lambda>s. Inr s"
      "\<lparr>resource_title = Val (ascii ''Titulo''), resource_url = Val (ascii ''https://example.com''),
       resource_type = Val article, resource_credibility = Undefined\<rparr>"
      "\<lparr>activity_title = Val (ascii ''Pesquisa de campo''), activity_description = Null,
       activity_status = Val not_started\<rparr>"]
  by simp

lemma isValidResource_example_valid:
  "isValidResource (\<lambda>s. Inr s) (Val
      \<lparr>resource_title = Val (ascii ''  Titulo ''), resource_url = Val (ascii ''https://example.com''),
       resource_type = Val article, resource_credibility = Val high\<rparr>) = Inr True"
  by (simp add: isValidResource_value isValidURL_value trim_def ascii_def is_white_space_def)

lemma isValidResource_example_short_title:
  "isValidResource (\<lambda>s. Inr s) (Val
      \<lparr>resource_title = Val (ascii ''  AB ''), resource_url = Val (ascii ''https://example.com''),
       resource_type = Val article, resource_credibility = Val high\<rparr>) = Inr False"
  by (simp add: isValidResource_value isValidURL_value trim_def ascii_def is_white_space_def)

end
